theory Spec2Isabelle
  imports Main "HOL-Library.Word"
begin

section \<open>Formatting helpers\<close>

text \<open>Go's \<open>fmt.Sprintf("%d", n)\<close> for an unsigned value: the decimal digits, most
  significant first, with no padding.\<close>

definition digit_char :: "nat \<Rightarrow> char" where
  "digit_char d = char_of (48 + d)"

function Sprintf_d :: "nat \<Rightarrow> string" where
  "Sprintf_d n = (if n < 10 then [digit_char n] else Sprintf_d (n div 10) @ [digit_char (n mod 10)])"
  by pat_completeness auto
termination
  by (relation "measure (\<lambda>n. n)") auto

declare Sprintf_d.simps [simp del]

section \<open>Data model (package canal)\<close>

datatype error = Err string

datatype EventType = EventTypeInsert | EventTypeUpdate | EventTypeDelete

text \<open>\<open>EventType\<close> is a string type in the source; these are its three constants.\<close>

fun EventType_string :: "EventType \<Rightarrow> string" where
  "EventType_string EventTypeInsert = ''INSERT''"
| "EventType_string EventTypeUpdate = ''UPDATE''"
| "EventType_string EventTypeDelete = ''DELETE''"

record Position =
  Name :: string
  Pos :: "32 word"
  GTIDSet :: string

text \<open>A column value is an \<open>interface{}\<close> in the source; the model keeps the nil value,
  integers and strings.\<close>

datatype val = VNil | VInt int | VStr string

record Column =
  col_Name :: string
  col_Type :: string
  col_Value :: val
  IsNull :: bool
  Updated :: bool

record RowData =
  Columns :: "Column list"

record Event =
  ID :: string
  Schema :: string
  Table :: string
  EventType :: EventType
  Timestamp :: "32 word"
  Position :: Position
  BeforeData :: "RowData option"
  AfterData :: "RowData option"
  SQL :: string

text \<open>An \<open>EventHandler\<close> is an interface value: the model keeps what \<open>GetName()\<close> returns
  and the identity of the object behind the interface.\<close>

record EventHandler =
  GetName :: string
  handler_ref :: nat

section \<open>Event sink (event\_sink.go)\<close>

text \<open>\<open>handlers\<close> is the two-level map \<open>schema.table -> handlerName -> handler\<close>.
  \<open>eventCh\<close> holds the events accepted by the channel, oldest first, and \<open>sendCalls\<close>
  records every event \<open>SendEvent\<close> was called with (accepted or timed out).\<close>

record DefaultEventSink =
  handlers :: "string \<rightharpoonup> (string \<rightharpoonup> EventHandler)"
  eventCh :: "Event list"
  sendCalls :: "Event list"
  started :: bool

definition NewDefaultEventSink :: DefaultEventSink where
  "NewDefaultEventSink = \<lparr>handlers = Map.empty, eventCh = [], sendCalls = [], started = False\<rparr>"

definition table_key :: "string \<Rightarrow> string \<Rightarrow> string" where
  "table_key schema table = schema @ ''.'' @ table"

definition Subscribe :: "string \<Rightarrow> string \<Rightarrow> EventHandler \<Rightarrow> DefaultEventSink
    \<Rightarrow> DefaultEventSink \<times> error option" where
  "Subscribe schema table handler s =
     (let key = table_key schema table;
          hs = (case handlers s key of None \<Rightarrow> Map.empty | Some m \<Rightarrow> m)
      in (s\<lparr>handlers := (handlers s)(key \<mapsto> hs(GetName handler \<mapsto> handler))\<rparr>, None))"

definition Unsubscribe :: "string \<Rightarrow> string \<Rightarrow> string \<Rightarrow> DefaultEventSink
    \<Rightarrow> DefaultEventSink \<times> error option" where
  "Unsubscribe schema table handlerName s =
     (let key = table_key schema table
      in case handlers s key of
           None \<Rightarrow> (s, None)
         | Some m \<Rightarrow>
             (let m' = m(handlerName := None)
              in if m' = Map.empty then (s\<lparr>handlers := (handlers s)(key := None)\<rparr>, None)
                 else (s\<lparr>handlers := (handlers s)(key \<mapsto> m')\<rparr>, None)))"

text \<open>Number of handlers registered under a key, \<open>len(s.handlers[key])\<close>.\<close>

definition handler_count :: "DefaultEventSink \<Rightarrow> string \<Rightarrow> string \<Rightarrow> nat" where
  "handler_count s schema table =
     (case handlers s (table_key schema table) of None \<Rightarrow> 0 | Some m \<Rightarrow> card (dom m))"

text \<open>\<open>SendEvent\<close> is a \<open>select\<close> between the channel send and a 5-second timer. Whether
  the channel takes the event in time depends on the consumer running beside the caller,
  so the outcome is a parameter: \<open>tmo n\<close> tells whether the call number \<open>n\<close> on this sink
  (counted from 0) times out.\<close>

definition SendEvent :: "(nat \<Rightarrow> bool) \<Rightarrow> Event \<Rightarrow> DefaultEventSink
    \<Rightarrow> DefaultEventSink \<times> error option" where
  "SendEvent tmo event s =
     (let s1 = s\<lparr>sendCalls := sendCalls s @ [event]\<rparr>
      in if tmo (length (sendCalls s)) then (s1, Some (Err ''send event timeout''))
         else (s1\<lparr>eventCh := eventCh s @ [event]\<rparr>, None))"

section \<open>Meta store (meta\_manager.go)\<close>

record BinlogPosition =
  bp_InstanceID :: string
  Filename :: string
  bp_Position :: "32 word"
  bp_GTIDSet :: string

text \<open>The table \<open>binlog_positions\<close> has a unique index on \<open>instance_id\<close>: it is a map from
  the instance id to its row. The storage is outside the program; \<open>db_env\<close> says which of
  the calls of one operation fail: the lookup \<open>First\<close> (with an error other than
  \<open>ErrRecordNotFound\<close>) and the write (\<open>Create\<close>, \<open>Updates\<close>).\<close>

record db_env =
  first_fails :: bool
  write_fails :: bool

record DBMetaManager =
  cache :: "string \<rightharpoonup> Position"
  db :: "string \<rightharpoonup> BinlogPosition"

datatype first_result = Found BinlogPosition | ErrRecordNotFound | FirstError

definition db_First :: "db_env \<Rightarrow> DBMetaManager \<Rightarrow> string \<Rightarrow> first_result" where
  "db_First env m instanceID =
     (if first_fails env then FirstError
      else case db m instanceID of None \<Rightarrow> ErrRecordNotFound | Some r \<Rightarrow> Found r)"

text \<open>\<open>Updates\<close> with a struct writes the non-zero fields of the struct to the rows that
  match; with no matching row it changes nothing and reports no error.\<close>

definition db_Updates :: "BinlogPosition \<Rightarrow> BinlogPosition \<Rightarrow> BinlogPosition" where
  "db_Updates new old =
     old\<lparr>bp_InstanceID := (if bp_InstanceID new = [] then bp_InstanceID old else bp_InstanceID new),
         Filename := (if Filename new = [] then Filename old else Filename new),
         bp_Position := (if bp_Position new = 0 then bp_Position old else bp_Position new),
         bp_GTIDSet := (if bp_GTIDSet new = [] then bp_GTIDSet old else bp_GTIDSet new)\<rparr>"

definition SavePosition :: "db_env \<Rightarrow> string \<Rightarrow> Position \<Rightarrow> DBMetaManager
    \<Rightarrow> DBMetaManager \<times> error option" where
  "SavePosition env instanceID pos m =
     (let m1 = m\<lparr>cache := (cache m)(instanceID \<mapsto> pos)\<rparr>;
          binlogPos = \<lparr>bp_InstanceID = instanceID, Filename = Name pos,
                       bp_Position = Pos pos, bp_GTIDSet = GTIDSet pos\<rparr>
      in case db_First env m1 instanceID of
           ErrRecordNotFound \<Rightarrow>
             (if write_fails env then (m1, Some (Err ''failed to create binlog position''))
              else (m1\<lparr>db := (db m1)(instanceID \<mapsto> binlogPos)\<rparr>, None))
         | _ \<Rightarrow>
             (if write_fails env then (m1, Some (Err ''failed to update binlog position''))
              else (m1\<lparr>db := (case db m1 instanceID of
                                  None \<Rightarrow> db m1
                                | Some old \<Rightarrow> (db m1)(instanceID \<mapsto> db_Updates binlogPos old))\<rparr>,
                    None)))"

text \<open>\<open>LoadPosition\<close> holds the read lock until it returns. On a cache miss with a row in
  storage it asks for the write lock of the same mutex while still holding the read lock,
  which never succeeds: that call does not return (\<open>None\<close>).\<close>

definition LoadPosition :: "db_env \<Rightarrow> string \<Rightarrow> DBMetaManager
    \<Rightarrow> (Position \<times> error option) option" where
  "LoadPosition env instanceID m =
     (case cache m instanceID of
        Some pos \<Rightarrow> Some (pos, None)
      | None \<Rightarrow>
          (case db_First env m instanceID of
             ErrRecordNotFound \<Rightarrow> Some (\<lparr>Name = [], Pos = 4, GTIDSet = []\<rparr>, None)
           | FirstError \<Rightarrow>
               Some (\<lparr>Name = [], Pos = 0, GTIDSet = []\<rparr>, Some (Err ''failed to load binlog position''))
           | Found r \<Rightarrow> None))"

section \<open>Binlog slave (MySQLBinlogSlave)\<close>

record MySQLConfig =
  Host :: string
  Port :: int
  Username :: string
  Password :: string
  Database :: string
  ServerID :: "32 word"
  BinlogFile :: string
  BinlogPos :: "32 word"

text \<open>\<open>%d\<close> of a signed value.\<close>

definition Sprintf_int :: "int \<Rightarrow> string" where
  "Sprintf_int i = (if i < 0 then CHR ''-'' # Sprintf_d (nat (- i)) else Sprintf_d (nat i))"

record ColumnInfo =
  ci_Name :: string
  ci_Type :: string
  Nullable :: bool
  IsPK :: bool

record TableSchema =
  ts_Schema :: string
  ts_Table :: string
  ts_Columns :: "ColumnInfo list"

text \<open>The events of the replication library, as far as the slave reads them. A rotate
  payload carries its position as a 64-bit value, the header its \<open>LogPos\<close> as a 32-bit one.\<close>

datatype replication_EventType =
    QUERY_EVENT | ROTATE_EVENT | FORMAT_DESCRIPTION_EVENT | XID_EVENT | TABLE_MAP_EVENT
  | WRITE_ROWS_EVENTv1 | UPDATE_ROWS_EVENTv1 | DELETE_ROWS_EVENTv1
  | WRITE_ROWS_EVENTv2 | UPDATE_ROWS_EVENTv2 | DELETE_ROWS_EVENTv2
  | GTID_EVENT | OTHER_EVENT nat

record EventHeader =
  hdr_Timestamp :: "32 word"
  hdr_EventType :: replication_EventType
  LogPos :: "32 word"

record TableMapEvent =
  tm_Schema :: string
  tm_Table :: string
  ColumnType :: "8 word list"

record RowsEvent =
  re_Table :: TableMapEvent
  Rows :: "val list list"

record RotateEvent =
  rot_Position :: "64 word"
  NextLogName :: string

datatype EventBody =
    RowsEventBody RowsEvent
  | QueryEventBody string
  | XIDEventBody
  | GTIDEventBody
  | RotateEventBody RotateEvent
  | TableMapEventBody TableMapEvent
  | OtherEventBody

record BinlogEvent =
  Header :: EventHeader
  Event_body :: EventBody

record mysql_Position =
  mp_Name :: string
  mp_Pos :: "32 word"

text \<open>The slave holds pointers to the event sink and to the meta manager (which may be
  nil); the model keeps their states inside the slave's state.\<close>

record MySQLBinlogSlave =
  config :: MySQLConfig
  eventSink :: DefaultEventSink
  watchTables :: "string \<rightharpoonup> bool"
  eventTypes :: "EventType \<rightharpoonup> bool"
  running :: bool
  instanceID :: string
  binlogPos :: mysql_Position
  gtidSet :: "string option"
  tableSchemas :: "string \<rightharpoonup> TableSchema"
  eventCounter :: "EventType \<rightharpoonup> 64 word"
  metaManager :: "DBMetaManager option"

definition NewMySQLBinlogSlaveWithMeta :: "MySQLConfig \<Rightarrow> DefaultEventSink
    \<Rightarrow> DBMetaManager option \<Rightarrow> MySQLBinlogSlave" where
  "NewMySQLBinlogSlaveWithMeta cfg sink mm =
     \<lparr>config = cfg,
      eventSink = sink,
      watchTables = Map.empty,
      eventTypes = [EventTypeInsert \<mapsto> True, EventTypeUpdate \<mapsto> True, EventTypeDelete \<mapsto> True],
      running = False,
      instanceID = ''mysql-slave-'' @ Host cfg @ ''-'' @ Sprintf_int (Port cfg) @ ''-''
                     @ Sprintf_d (unat (ServerID cfg)),
      binlogPos = \<lparr>mp_Name = ''mysql-bin.000001'', mp_Pos = 4\<rparr>,
      gtidSet = None,
      tableSchemas = Map.empty,
      eventCounter = Map.empty,
      metaManager = mm\<rparr>"

definition AddWatchTable :: "string \<Rightarrow> string \<Rightarrow> MySQLBinlogSlave \<Rightarrow> MySQLBinlogSlave" where
  "AddWatchTable schema table m = m\<lparr>watchTables := (watchTables m)(table_key schema table \<mapsto> True)\<rparr>"

definition SetEventTypes :: "EventType list \<Rightarrow> MySQLBinlogSlave \<Rightarrow> MySQLBinlogSlave" where
  "SetEventTypes ets m = m\<lparr>eventTypes := (\<lambda>t. if t \<in> set ets then Some True else None)\<rparr>"

definition getCurrentPosition :: "db_env \<Rightarrow> MySQLBinlogSlave \<Rightarrow> (MySQLBinlogSlave \<times> error option) option" where
  "getCurrentPosition env m =
     (case metaManager m of
        None \<Rightarrow> Some (m\<lparr>binlogPos := \<lparr>mp_Name = [], mp_Pos = 4\<rparr>\<rparr>, None)
      | Some mm \<Rightarrow>
          (case LoadPosition env (instanceID m) mm of
             None \<Rightarrow> None
           | Some (pos, None) \<Rightarrow> Some (m\<lparr>binlogPos := \<lparr>mp_Name = Name pos, mp_Pos = Pos pos\<rparr>\<rparr>, None)
           | Some (pos, Some e) \<Rightarrow> Some (m\<lparr>binlogPos := \<lparr>mp_Name = [], mp_Pos = 4\<rparr>\<rparr>, None)))"

definition getColumnTypeName :: "8 word \<Rightarrow> string" where
  "getColumnTypeName colType =
     (if colType = 1 then ''tinyint''
      else if colType = 2 then ''smallint''
      else if colType = 3 then ''int''
      else if colType = 8 then ''bigint''
      else if colType = 4 then ''float''
      else if colType = 5 then ''double''
      else if colType = 246 then ''decimal''
      else if colType = 253 \<or> colType = 254 then ''varchar''
      else if colType = 12 then ''datetime''
      else if colType = 10 then ''date''
      else if colType = 11 then ''time''
      else if colType = 7 then ''timestamp''
      else ''unknown_'' @ Sprintf_d (unat colType))"

definition getTableSchema :: "string \<Rightarrow> string \<Rightarrow> TableMapEvent \<Rightarrow> MySQLBinlogSlave
    \<Rightarrow> TableSchema \<times> MySQLBinlogSlave" where
  "getTableSchema schema table tableInfo m =
     (let tableKey = table_key schema table
      in case tableSchemas m tableKey of
           Some ts \<Rightarrow> (ts, m)
         | None \<Rightarrow>
             (let ts = \<lparr>ts_Schema = schema, ts_Table = table,
                        ts_Columns = map (\<lambda>(i, colType).
                            \<lparr>ci_Name = ''col_'' @ Sprintf_d i, ci_Type = getColumnTypeName colType,
                             Nullable = True, IsPK = False\<rparr>)
                          (enumerate 0 (ColumnType tableInfo))\<rparr>
              in (ts, m\<lparr>tableSchemas := (tableSchemas m)(tableKey \<mapsto> ts)\<rparr>)))"

text \<open>\<open>convertRowToRowData\<close>: one column per column of the table schema; a column beyond
  the end of the row is null with the nil value.\<close>

definition convertRowToRowData :: "TableSchema \<Rightarrow> val list \<Rightarrow> RowData" where
  "convertRowToRowData tableSchema row =
     \<lparr>Columns = map (\<lambda>(i, colInfo).
         (let value = (if i < length row then row ! i else VNil);
              isNull = (if i < length row then value = VNil else True)
          in \<lparr>col_Name = ci_Name colInfo, col_Type = ci_Type colInfo, col_Value = value,
              IsNull = isNull, Updated = False\<rparr>))
        (enumerate 0 (ts_Columns tableSchema))\<rparr>"

definition createCanalEvent :: "MySQLBinlogSlave \<Rightarrow> EventHeader \<Rightarrow> TableSchema \<Rightarrow> EventType
    \<Rightarrow> val list \<Rightarrow> nat \<Rightarrow> val list list \<Rightarrow> Event" where
  "createCanalEvent m header tableSchema eventType row rowIndex allRows =
     (let event = \<lparr>ID = ''mysql-binlog-'' @ Sprintf_d (unat (LogPos header)) @ ''-''
                        @ Sprintf_d (unat (hdr_Timestamp header)) @ ''-'' @ Sprintf_d rowIndex,
                   Schema = ts_Schema tableSchema,
                   Table = ts_Table tableSchema,
                   EventType = eventType,
                   Timestamp = hdr_Timestamp header,
                   Position = \<lparr>Name = mp_Name (binlogPos m), Pos = LogPos header,
                               GTIDSet = (case gtidSet m of None \<Rightarrow> [] | Some g \<Rightarrow> g)\<rparr>,
                   BeforeData = None,
                   AfterData = None,
                   SQL = []\<rparr>
      in case eventType of
           EventTypeInsert \<Rightarrow> event\<lparr>AfterData := Some (convertRowToRowData tableSchema row)\<rparr>
         | EventTypeDelete \<Rightarrow> event\<lparr>BeforeData := Some (convertRowToRowData tableSchema row)\<rparr>
         | EventTypeUpdate \<Rightarrow>
             (if rowIndex mod 2 = 0 \<and> rowIndex + 1 < length allRows
              then event\<lparr>BeforeData := Some (convertRowToRowData tableSchema row),
                         AfterData := Some (convertRowToRowData tableSchema (allRows ! (rowIndex + 1)))\<rparr>
              else event))"

text \<open>The loop \<open>for i, row := range e.Rows\<close> of \<open>handleRowsEvent\<close>: \<open>rest\<close> are the rows
  from index \<open>i\<close> on. The first failed send ends the loop with an error.\<close>

fun send_rows :: "(nat \<Rightarrow> bool) \<Rightarrow> EventHeader \<Rightarrow> TableSchema \<Rightarrow> EventType \<Rightarrow> val list list
    \<Rightarrow> nat \<Rightarrow> val list list \<Rightarrow> MySQLBinlogSlave \<Rightarrow> MySQLBinlogSlave \<times> error option" where
  "send_rows tmo header tableSchema eventType allRows i [] m = (m, None)"
| "send_rows tmo header tableSchema eventType allRows i (row # rest) m =
     (let event = createCanalEvent m header tableSchema eventType row i allRows
      in case SendEvent tmo event (eventSink m) of
           (sink, Some e) \<Rightarrow> (m\<lparr>eventSink := sink\<rparr>, Some (Err ''failed to send event''))
         | (sink, None) \<Rightarrow>
             send_rows tmo header tableSchema eventType allRows (i + 1) rest
               (m\<lparr>eventSink := sink,
                  eventCounter := (eventCounter m)(eventType \<mapsto>
                     (case eventCounter m eventType of None \<Rightarrow> 0 | Some c \<Rightarrow> c) + 1)\<rparr>))"

definition rows_event_type :: "replication_EventType \<Rightarrow> EventType option" where
  "rows_event_type t =
     (if t = WRITE_ROWS_EVENTv1 \<or> t = WRITE_ROWS_EVENTv2 then Some EventTypeInsert
      else if t = UPDATE_ROWS_EVENTv1 \<or> t = UPDATE_ROWS_EVENTv2 then Some EventTypeUpdate
      else if t = DELETE_ROWS_EVENTv1 \<or> t = DELETE_ROWS_EVENTv2 then Some EventTypeDelete
      else None)"

definition handleRowsEvent :: "(nat \<Rightarrow> bool) \<Rightarrow> EventHeader \<Rightarrow> RowsEvent \<Rightarrow> MySQLBinlogSlave
    \<Rightarrow> MySQLBinlogSlave \<times> error option" where
  "handleRowsEvent tmo header e m =
     (let schemaName = tm_Schema (re_Table e);
          tableName = tm_Table (re_Table e);
          tableKey = table_key schemaName tableName;
          shouldWatch = (case watchTables m tableKey of None \<Rightarrow> False | Some b \<Rightarrow> b)
      in if dom (watchTables m) \<noteq> {} \<and> \<not> shouldWatch then (m, None)
         else case rows_event_type (hdr_EventType header) of
                None \<Rightarrow> (m, None)
              | Some eventType \<Rightarrow>
                  (if \<not> (case eventTypes m eventType of None \<Rightarrow> False | Some b \<Rightarrow> b) then (m, None)
                   else (let (tableSchema, m1) = getTableSchema schemaName tableName (re_Table e) m
                         in send_rows tmo header tableSchema eventType (Rows e) 0 (Rows e) m1)))"

text \<open>The handlers of the other event types only log.\<close>

definition handleBinlogEvent :: "(nat \<Rightarrow> bool) \<Rightarrow> BinlogEvent \<Rightarrow> MySQLBinlogSlave
    \<Rightarrow> MySQLBinlogSlave \<times> error option" where
  "handleBinlogEvent tmo ev m =
     (case Event_body ev of
        RowsEventBody e \<Rightarrow> handleRowsEvent tmo (Header ev) e m
      | _ \<Rightarrow> (m, None))"

text \<open>\<open>updatePosition\<close> starts a goroutine that saves the new position; the model runs
  the save at once.\<close>

definition updatePosition :: "db_env \<Rightarrow> BinlogEvent \<Rightarrow> MySQLBinlogSlave \<Rightarrow> MySQLBinlogSlave" where
  "updatePosition env ev m =
     (let oldPos = binlogPos m;
          p1 = oldPos\<lparr>mp_Pos := LogPos (Header ev)\<rparr>;
          p2 = (if hdr_EventType (Header ev) = ROTATE_EVENT
                then (case Event_body ev of
                        RotateEventBody rotateEvent \<Rightarrow>
                          \<lparr>mp_Name = NextLogName rotateEvent, mp_Pos = ucast (rot_Position rotateEvent)\<rparr>
                      | _ \<Rightarrow> p1)
                else p1);
          m1 = m\<lparr>binlogPos := p2\<rparr>
      in case metaManager m of
           None \<Rightarrow> m1
         | Some mm \<Rightarrow>
             (if mp_Name oldPos \<noteq> mp_Name p2 \<or> mp_Pos oldPos \<noteq> mp_Pos p2
              then m1\<lparr>metaManager := Some (fst (SavePosition env (instanceID m)
                        \<lparr>Name = mp_Name p2, Pos = mp_Pos p2,
                         GTIDSet = (case gtidSet m of None \<Rightarrow> [] | Some g \<Rightarrow> g)\<rparr> mm))\<rparr>
              else m1))"

text \<open>One turn of the loop of \<open>processBinlogStream\<close> on an event read from the stream: the
  error of \<open>handleBinlogEvent\<close> is logged and dropped, then the position is updated.\<close>

definition pump_step :: "(nat \<Rightarrow> bool) \<Rightarrow> db_env \<Rightarrow> BinlogEvent \<Rightarrow> MySQLBinlogSlave \<Rightarrow> MySQLBinlogSlave" where
  "pump_step tmo env ev m = updatePosition env ev (fst (handleBinlogEvent tmo ev m))"

text \<open>\<open>processBinlogStream\<close> on the events the stream delivers before \<open>GetEvent\<close> fails.\<close>

fun processBinlogStream :: "(nat \<Rightarrow> bool) \<Rightarrow> db_env \<Rightarrow> BinlogEvent list \<Rightarrow> MySQLBinlogSlave
    \<Rightarrow> MySQLBinlogSlave \<times> error option" where
  "processBinlogStream tmo env [] m = (m, Some (Err ''failed to get binlog event''))"
| "processBinlogStream tmo env (ev # evs) m = processBinlogStream tmo env evs (pump_step tmo env ev m)"

section \<open>Properties of the event sink\<close>

lemma Subscribe_handlers:
  "handlers (fst (Subscribe schema table h s)) (table_key schema table) =
     Some ((case handlers s (table_key schema table) of None \<Rightarrow> Map.empty | Some m \<Rightarrow> m)
            (GetName h \<mapsto> h))"
  by (simp add: Subscribe_def Let_def)

text \<open>C7: subscribing twice under the same \<open>(schema, table)\<close> with two handlers of the same
  name succeeds both times and leaves the key with the registrations it had after the
  first call: the name is registered once (bound to the second handler), and on a sink
  with no earlier registration under the key exactly one handler is registered.\<close>

theorem Subscribe_idempotent_by_name:
  assumes "GetName h2 = GetName h1"
  shows "snd (Subscribe schema table h1 s) = None
       \<and> snd (Subscribe schema table h2 (fst (Subscribe schema table h1 s))) = None
       \<and> (\<exists>m1 m2. handlers (fst (Subscribe schema table h1 s)) (table_key schema table) = Some m1
            \<and> handlers (fst (Subscribe schema table h2 (fst (Subscribe schema table h1 s))))
                 (table_key schema table) = Some m2
            \<and> dom m2 = dom m1 \<and> m2 (GetName h1) = Some h2
            \<and> (handlers s (table_key schema table) = None \<longrightarrow> dom m2 = {GetName h1}))"
  using assms by (auto simp: Subscribe_def Let_def split: option.splits)

theorem Subscribe_idempotent_by_name_witness:
  "snd (Subscribe ''test'' ''users'' \<lparr>GetName = ''webhook-1'', handler_ref = 0\<rparr> NewDefaultEventSink) = None
   \<and> snd (Subscribe ''test'' ''users'' \<lparr>GetName = ''webhook-1'', handler_ref = 1\<rparr>
        (fst (Subscribe ''test'' ''users'' \<lparr>GetName = ''webhook-1'', handler_ref = 0\<rparr> NewDefaultEventSink))) = None
   \<and> handler_count (fst (Subscribe ''test'' ''users'' \<lparr>GetName = ''webhook-1'', handler_ref = 1\<rparr>
        (fst (Subscribe ''test'' ''users'' \<lparr>GetName = ''webhook-1'', handler_ref = 0\<rparr> NewDefaultEventSink))))
        ''test'' ''users'' = 1"
proof -
  let ?h1 = "\<lparr>GetName = ''webhook-1'', handler_ref = 0\<rparr>"
  let ?h2 = "\<lparr>GetName = ''webhook-1'', handler_ref = 1\<rparr>"
  have n: "GetName ?h2 = GetName ?h1" by simp
  have e: "handlers NewDefaultEventSink (table_key ''test'' ''users'') = None"
    by (simp add: NewDefaultEventSink_def)
  from Subscribe_idempotent_by_name [OF n, of "''test''" "''users''" NewDefaultEventSink] e
  obtain m2 where
    r1: "snd (Subscribe ''test'' ''users'' ?h1 NewDefaultEventSink) = None" and
    r2: "snd (Subscribe ''test'' ''users'' ?h2 (fst (Subscribe ''test'' ''users'' ?h1 NewDefaultEventSink))) = None" and
    h: "handlers (fst (Subscribe ''test'' ''users'' ?h2 (fst (Subscribe ''test'' ''users'' ?h1 NewDefaultEventSink))))
          (table_key ''test'' ''users'') = Some m2" and
    d: "dom m2 = {GetName ?h1}"
    by blast
  from h d have "handler_count (fst (Subscribe ''test'' ''users'' ?h2
        (fst (Subscribe ''test'' ''users'' ?h1 NewDefaultEventSink)))) ''test'' ''users'' = 1"
    by (simp add: handler_count_def)
  with r1 r2 show ?thesis by blast
qed

end
